theory Spec2Isabelle
  imports Complex_Main "HOL-Library.Multiset"
begin

section \<open>Token-replay decoration of a Petri net: \<^verbatim>\<open>commented_token_custom.py\<close>\<close>

text \<open>
  The module holds two functions, \<^verbatim>\<open>get_decorations\<close> and \<^verbatim>\<open>apply\<close>. Both only
  sequence calls into the imported pm4py package (variant indexing, token replay,
  element statistics, aggregation, rendering). The package is not part of the module,
  so the calls are parameters of the model: a record \<open>pm4py\<close> of functions over
  abstract types of logs, nets, markings and results. A call that raises is a call
  that returns \<open>Inl e\<close>; the module has no handler, so the first \<open>Inl\<close> is the
  outcome of the whole function.
\<close>

subsection \<open>Values\<close>

datatype error = Raised string

text \<open>A Python value as far as the module looks at it: a string or \<^verbatim>\<open>None\<close>.\<close>

type_synonym pyvalue = "string option"

text \<open>The keys of \<^verbatim>\<open>Parameters\<close> that the module reads, and any other key.\<close>

datatype param_key = AGGREGATION_MEASURE | ACTIVITY_KEY | TIMESTAMP_KEY | OTHER_KEY string

type_synonym parameters = "param_key \<Rightarrow> pyvalue option"

text \<open>
  A keyword argument with a default value in the signature: left out by the caller,
  or passed. (An argument whose default is \<^verbatim>\<open>None\<close> is an \<open>option\<close> instead.)
\<close>

datatype 'a kwarg = Omitted | Passed 'a

fun kwarg_or :: "'a \<Rightarrow> 'a kwarg \<Rightarrow> 'a" where
  "kwarg_or d Omitted = d"
| "kwarg_or d (Passed v) = v"

text \<open>
  Modelled from the spec: \<^verbatim>\<open>exec_utils.get_param_value\<close> is a helper of pm4py, not of
  the module. The spec describes the configuration as a dictionary "with defaults":
  the value stored under the key, and the default when the key is absent.
\<close>

definition get_param_value :: "param_key \<Rightarrow> parameters \<Rightarrow> pyvalue \<Rightarrow> pyvalue" where
  "get_param_value p parameters dflt =
     (case parameters p of None \<Rightarrow> dflt | Some v \<Rightarrow> v)"

text \<open>The dictionary \<^verbatim>\<open>parameters_tr\<close> built at lines 59-60: exactly two entries.\<close>

record 'vars parameters_tr =
  tr_ACTIVITY_KEY :: pyvalue
  tr_VARIANTS :: 'vars

subsection \<open>The imported package\<close>

record ('log, 'net, 'mk, 'vidx, 'vars, 'al, 'st, 'dec, 'gv) pm4py =
  DEFAULT_NAME_KEY :: string
  DEFAULT_TIMESTAMP_KEY :: string
  get_variants_from_log_trace_idx :: "'log \<Rightarrow> parameters \<Rightarrow> error + 'vidx"
  convert_variants_trace_idx_to_trace_obj :: "'log \<Rightarrow> 'vidx \<Rightarrow> error + 'vars"
  token_replay_apply ::
    "'log \<Rightarrow> 'net \<Rightarrow> 'mk \<Rightarrow> 'mk \<Rightarrow> 'vars parameters_tr \<Rightarrow> error + 'al"
  single_element_statistics ::
    "'log \<Rightarrow> 'net \<Rightarrow> 'mk \<Rightarrow> 'al \<Rightarrow> 'vidx \<Rightarrow> pyvalue \<Rightarrow> pyvalue \<Rightarrow> string \<Rightarrow> error + 'st"
  aggregate_statistics :: "'st \<Rightarrow> string \<Rightarrow> pyvalue \<Rightarrow> error + 'dec"
  visualize_apply ::
    "'net \<Rightarrow> 'mk \<Rightarrow> 'mk \<Rightarrow> parameters option \<Rightarrow> 'dec option \<Rightarrow> error + 'gv"

subsection \<open>\<^verbatim>\<open>get_decorations\<close> (lines 13-79)\<close>

definition get_decorations ::
  "('log, 'net, 'mk, 'vidx, 'vars, 'al, 'st, 'dec, 'gv) pm4py \<Rightarrow> 'log \<Rightarrow> 'net \<Rightarrow> 'mk \<Rightarrow> 'mk \<Rightarrow>
     parameters option \<Rightarrow> string kwarg \<Rightarrow> string kwarg \<Rightarrow> error + 'dec" where
  "get_decorations L lg net initial_marking final_marking parameters0 measure0 ht_perf_method0 =
     (let measure = kwarg_or ''frequency'' measure0;
          ht_perf_method = kwarg_or ''last'' ht_perf_method0;
          parameters = (case parameters0 of None \<Rightarrow> Map.empty | Some p \<Rightarrow> p);
          aggregation_measure = get_param_value AGGREGATION_MEASURE parameters None;
          activity_key = get_param_value ACTIVITY_KEY parameters (Some (DEFAULT_NAME_KEY L));
          timestamp_key =
            get_param_value TIMESTAMP_KEY parameters (Some (DEFAULT_TIMESTAMP_KEY L))
      in case get_variants_from_log_trace_idx L lg parameters of
           Inl e \<Rightarrow> Inl e
         | Inr variants_idx \<Rightarrow>
        (case convert_variants_trace_idx_to_trace_obj L lg variants_idx of
           Inl e \<Rightarrow> Inl e
         | Inr variants \<Rightarrow>
        (case token_replay_apply L lg net initial_marking final_marking
                \<lparr>tr_ACTIVITY_KEY = activity_key, tr_VARIANTS = variants\<rparr> of
           Inl e \<Rightarrow> Inl e
         | Inr aligned_traces \<Rightarrow>
        (case single_element_statistics L lg net initial_marking aligned_traces variants_idx
                activity_key timestamp_key ht_perf_method of
           Inl e \<Rightarrow> Inl e
         | Inr element_statistics \<Rightarrow>
             aggregate_statistics L element_statistics measure aggregation_measure))))"

subsection \<open>\<^verbatim>\<open>get_decorations\<close> as a relation between inputs and outcomes\<close>





subsection \<open>\<^verbatim>\<open>apply\<close> (lines 84-120)\<close>

text \<open>
  Lines 111-114: the value of the local \<^verbatim>\<open>aggregated_statistics\<close> when line 119 is
  reached, or the error that escaped \<^verbatim>\<open>get_decorations\<close>. This is the decoration map
  that the module hands to the renderer.
\<close>

definition apply_decorations ::
  "('log, 'net, 'mk, 'vidx, 'vars, 'al, 'st, 'dec, 'gv) pm4py \<Rightarrow> 'net \<Rightarrow> 'mk \<Rightarrow> 'mk \<Rightarrow>
     'log option \<Rightarrow> 'dec option \<Rightarrow> parameters option \<Rightarrow> error + 'dec option" where
  "apply_decorations L net initial_marking final_marking log_opt aggregated_statistics parameters =
     (case aggregated_statistics of
        Some given \<Rightarrow> Inr (Some given)
      | None \<Rightarrow>
         (case log_opt of
            None \<Rightarrow> Inr None
          | Some lg \<Rightarrow>
             (case get_decorations L lg net initial_marking final_marking parameters
                     (Passed ''custom'') Omitted of
                Inl e \<Rightarrow> Inl e
              | Inr computed \<Rightarrow> Inr (Some computed))))"

text \<open>
  Lines 119-120: the call of the renderer with that value. The function is \<^verbatim>\<open>apply\<close>
  in the module; the name is a keyword here.
\<close>

definition apply_py ::
  "('log, 'net, 'mk, 'vidx, 'vars, 'al, 'st, 'dec, 'gv) pm4py \<Rightarrow> 'net \<Rightarrow> 'mk \<Rightarrow> 'mk \<Rightarrow>
     'log option \<Rightarrow> 'dec option \<Rightarrow> parameters option \<Rightarrow> error + 'gv" where
  "apply_py L net initial_marking final_marking log_opt aggregated_statistics parameters =
     (case apply_decorations L net initial_marking final_marking log_opt aggregated_statistics
             parameters of
        Inl e \<Rightarrow> Inl e
      | Inr decorations \<Rightarrow>
          visualize_apply L net initial_marking final_marking parameters decorations)"

subsection \<open>Decorations\<close>

text \<open>
  Modelled from the spec: the decoration record of the spec's output contract,
  "a mapping from model-element id to {label: string, color: float in [0,1]}". The
  module never looks inside a decoration; the type of \<open>color\<close> is the spec's, with
  the reals for the floats. A decoration map is an association list.
\<close>

record decoration =
  label :: string
  color :: real

type_synonym decorations = "(string \<times> decoration) list"


subsection \<open>A small instance of the package\<close>


subsection \<open>The aggregator as the spec describes it\<close>

text \<open>
  The aggregation is done inside \<^verbatim>\<open>performance_map.aggregate_statistics\<close> of pm4py,
  which is not part of the module: lines 75-76 only forward to it. The definitions of
  this subsection follow section 4.4 of the spec instead. Observations are exact
  rationals; the rounding of floating-point sums is not modelled.
\<close>

text \<open>
  Modelled from the spec: the aggregation measures of the missing aggregator, "an
  aggregation measure in {min, max, mean, median, sum}".
\<close>

datatype aggregation_measure = Agg_min | Agg_max | Agg_mean | Agg_median | Agg_sum

text \<open>
  Modelled from the spec: the sample list that the missing aggregator reduces. A pooled
  sample is "a single numeric observation" with "a weight (the variant multiplicity)";
  the measure is applied "to the (weight-expanded) sample list".
\<close>

definition weight_expanded :: "(rat \<times> nat) list \<Rightarrow> rat list" where
  "weight_expanded samples = concat (map (\<lambda>(v, w). replicate w v) samples)"

text \<open>
  Modelled from the spec: the median of the missing aggregator. The spec only names it;
  it is the middle of the sorted list, and the mean of the two middle values when there
  are two.
\<close>

definition median :: "rat list \<Rightarrow> rat" where
  "median xs =
     (let s = sort xs; n = length s
      in if odd n then s ! (n div 2) else (s ! (n div 2 - 1) + s ! (n div 2)) / 2)"

text \<open>
  Modelled from the spec: the reduction of one sample list by the missing aggregator,
  "producing one scalar". The empty list has no aggregate.
\<close>

fun aggregate :: "aggregation_measure \<Rightarrow> rat list \<Rightarrow> rat option" where
  "aggregate m [] = None"
| "aggregate Agg_min xs = Some (Min (set xs))"
| "aggregate Agg_max xs = Some (Max (set xs))"
| "aggregate Agg_mean xs = Some (sum_list xs / of_nat (length xs))"
| "aggregate Agg_median xs = Some (median xs)"
| "aggregate Agg_sum xs = Some (sum_list xs)"

text \<open>
  Modelled from the spec: the missing aggregator over all elements, "for each element,
  applies the aggregation measure to the sample list"; "elements with an empty sample
  list are omitted from the output".
\<close>

fun aggregate_samples ::
  "aggregation_measure \<Rightarrow> (string \<times> (rat \<times> nat) list) list \<Rightarrow> (string \<times> rat) list" where
  "aggregate_samples m [] = []"
| "aggregate_samples m ((el, samples) # pooled) =
     (case aggregate m (weight_expanded samples) of
        None \<Rightarrow> aggregate_samples m pooled
      | Some v \<Rightarrow> (el, v) # aggregate_samples m pooled)"

section \<open>Properties\<close>

lemma get_decorations_defaults:
  "get_decorations L lg net im fm ps Omitted Omitted =
   get_decorations L lg net im fm ps (Passed ''frequency'') (Passed ''last'')"
  by (simp add: get_decorations_def)

lemma get_decorations_ht_default:
  "get_decorations L lg net im fm ps m Omitted =
   get_decorations L lg net im fm ps m (Passed ''last'')"
  by (simp add: get_decorations_def)








lemma mset_weight_expanded_sum:
  "mset (weight_expanded samples) = (\<Sum>(v, w)\<in>#mset samples. replicate_mset w v)"
  by (induction samples) (auto simp: weight_expanded_def)

lemma mset_weight_expanded:
  "mset samples' = mset samples \<Longrightarrow> mset (weight_expanded samples') = mset (weight_expanded samples)"
  by (simp only: mset_weight_expanded_sum)

lemma sort_mset_eq:
  fixes xs :: "rat list"
  assumes "mset xs' = mset xs"
  shows "sort xs' = sort xs"
proof (rule properties_for_sort)
  show "mset (sort xs) = mset xs'" using assms by simp
  show "sorted (sort xs)" by simp
qed

lemma aggregate_nonempty:
  assumes "xs \<noteq> []"
  shows "aggregate Agg_min xs = Some (Min (set xs))"
    and "aggregate Agg_max xs = Some (Max (set xs))"
    and "aggregate Agg_mean xs = Some (sum_list xs / of_nat (length xs))"
    and "aggregate Agg_median xs = Some (median xs)"
    and "aggregate Agg_sum xs = Some (sum_list xs)"
  using assms by (cases xs; simp)+

lemma aggregate_mset:
  assumes "mset xs' = mset xs"
  shows "aggregate m xs' = aggregate m xs"
proof (cases "xs = []")
  case True
  with assms show ?thesis by simp
next
  case False
  with assms have ne: "xs' \<noteq> []" by auto
  have s: "set xs' = set xs" using assms by (rule mset_eq_setD)
  have l: "length xs' = length xs" using assms by (rule mset_eq_length)
  have "sum_mset (mset xs') = sum_mset (mset xs)" using assms by simp
  then have su: "sum_list xs' = sum_list xs" by (simp only: sum_mset_sum_list)
  have so: "sort xs' = sort xs" using assms by (rule sort_mset_eq)
  have md: "median xs' = median xs" by (simp only: median_def so)
  show ?thesis
    by (cases m) (simp_all only: aggregate_nonempty [OF False] aggregate_nonempty [OF ne] s l su md)
qed




text \<open>
  Claim C10. When \<^verbatim>\<open>apply\<close> is called with \<^verbatim>\<open>aggregated_statistics=None\<close> it derives
  the decorations itself. With a log, the graph is the renderer's for the decorations
  that \<^verbatim>\<open>get_decorations\<close> computes with the measure "custom" and the hidden-transition
  policy "last" (and an error of \<^verbatim>\<open>get_decorations\<close> is the outcome). With no log
  either, \<^verbatim>\<open>apply\<close> raises nothing of its own: its outcome is the renderer's for
  \<^verbatim>\<open>decorations=None\<close>.
\<close>

theorem apply_without_statistics:
  "apply_py L net im fm (Some lg) None ps =
     (case get_decorations L lg net im fm ps (Passed ''custom'') (Passed ''last'') of
        Inl e \<Rightarrow> Inl e
      | Inr d \<Rightarrow> visualize_apply L net im fm ps (Some d))
   \<and> apply_py L net im fm None None ps = visualize_apply L net im fm ps None"
proof
  show "apply_py L net im fm (Some lg) None ps =
     (case get_decorations L lg net im fm ps (Passed ''custom'') (Passed ''last'') of
        Inl e \<Rightarrow> Inl e
      | Inr d \<Rightarrow> visualize_apply L net im fm ps (Some d))"
    by (simp add: apply_py_def apply_decorations_def get_decorations_ht_default split: sum.splits)
  show "apply_py L net im fm None None ps = visualize_apply L net im fm ps None"
    by (simp add: apply_py_def apply_decorations_def)
qed






text \<open>
  Claim C5. For every element and every aggregation measure, aggregating a permutation
  of the element's pooled sample list gives the same scalar as aggregating the list:
  when two pooled collections hold, element by element, the same samples up to order,
  their aggregated statistics are equal.
\<close>

theorem aggregate_samples_permuted:
  assumes "list_all2 (\<lambda>(el', samples') (el, samples). el' = el \<and> mset samples' = mset samples)
             pooled' pooled"
  shows "aggregate_samples m pooled' = aggregate_samples m pooled"
  using assms
proof (induction pooled' pooled rule: list_all2_induct)
  case Nil
  show ?case by simp
next
  case (Cons x xs y ys)
  obtain el' s' where x: "x = (el', s')" by (cases x)
  obtain el s where y: "y = (el, s)" by (cases y)
  from Cons.hyps(1) have "el' = el" and "mset s' = mset s"
    by (simp_all add: x y)
  then have "aggregate m (weight_expanded s') = aggregate m (weight_expanded s)"
    by (intro aggregate_mset mset_weight_expanded)
  with Cons.IH \<open>el' = el\<close> show ?case
    by (simp add: x y split: option.splits)
qed

theorem aggregate_samples_permuted_witness:
  "list_all2 (\<lambda>(el', samples') (el, samples). el' = el \<and> mset samples' = mset samples)
     [(''p1'', [(1, 1), (3, 2), (4, 1)]), (''t1'', [])]
     [(''p1'', [(3, 2), (4, 1), (1, 1)]), (''t1'', [])] \<and>
   aggregate_samples Agg_median [(''p1'', [(1, 1), (3, 2), (4, 1)]), (''t1'', [])] = [(''p1'', 3)] \<and>
   aggregate_samples Agg_median [(''p1'', [(3, 2), (4, 1), (1, 1)]), (''t1'', [])] = [(''p1'', 3)]"
proof -
  have h: "list_all2 (\<lambda>(el', samples') (el, samples). el' = el \<and> mset samples' = mset samples)
     [(''p1'', [(1, 1), (3, 2), (4, 1)]), (''t1'', [])]
     [(''p1'', [(3, 2), (4, 1), (1, 1)]), (''t1'', [])]"
    by simp
  have v: "aggregate_samples Agg_median [(''p1'', [(3, 2), (4, 1), (1, 1)]), (''t1'', [])] =
      [(''p1'', 3)]"
    by code_simp
  show ?thesis
    using h v aggregate_samples_permuted [OF h, of Agg_median] by simp
qed

end
